theory Spec2Isabelle
  imports Main
begin

section \<open>The merge dialog of app/src/ui/merge-branch/merge.tsx\<close>

text \<open>
  The component \<^verbatim>\<open>Merge\<close> is a React component: it owns a state object, reads its
  props, and its handlers run to completion one at a time on a single thread. An
  \<^verbatim>\<open>async\<close> method runs synchronously up to its first \<^verbatim>\<open>await\<close>; what follows the
  \<^verbatim>\<open>await\<close> is a continuation that runs later, when the awaited promise settles, with
  other handlers possibly run in between. The embedding makes this explicit: the system
  is a record of the component state, the suspended calls of \<^verbatim>\<open>updateMergeStatus\<close>
  (each with the branch it was called for and the \<^verbatim>\<open>await\<close> it is suspended at) and the
  log of the calls made to collaborators; one event (a user action, or the settling of one
  awaited promise) is one step.
\<close>

subsection \<open>Data\<close>

text \<open>
  A \<^verbatim>\<open>Branch\<close> is an object: \<^verbatim>\<open>===\<close> and \<^verbatim>\<open>!==\<close> compare references, not contents.
  The field \<open>ref\<close> is the reference; \<open>name\<close> is the only field the component reads.
\<close>

record Branch =
  ref :: nat
  name :: string

text \<open>
  \<^verbatim>\<open>a === b\<close> on values of type \<^verbatim>\<open>Branch | null\<close>: \<^verbatim>\<open>null === null\<close> holds, an
  object is never \<^verbatim>\<open>null\<close>, two objects are compared by reference.
\<close>

fun strictEq :: "Branch option \<Rightarrow> Branch option \<Rightarrow> bool" where
  "strictEq None None = True"
| "strictEq (Some a) (Some b) = (ref a = ref b)"
| "strictEq _ _ = False"

text \<open>
  Modelled from the spec: the type \<^verbatim>\<open>MergeResultStatus\<close> of lib/app-state and the kinds
  \<^verbatim>\<open>MergeResultKind\<close> of models/merge are not under src/. The component reads the kinds
  \<^verbatim>\<open>Loading\<close> and \<^verbatim>\<open>Clean\<close> and the field \<^verbatim>\<open>conflictedFiles\<close>; the spec lists the
  variants Loading, Clean, Conflicted (with the number of conflicted files) and Unknown.
\<close>

datatype MergeResultStatus = Loading | Clean | Conflicts nat | Unknown

text \<open>The result of \<^verbatim>\<open>getAheadBehind\<close>: \<^verbatim>\<open>{ ahead, behind } | null\<close>.\<close>

record IAheadBehind =
  ahead :: nat
  behind :: nat

text \<open>
  The range built by \<^verbatim>\<open>revSymmetricDifference(from, to)\<close> (lib/git, not under src/): the
  component only passes it on to \<^verbatim>\<open>getAheadBehind\<close>, so it is kept as the pair of its
  arguments.
\<close>

datatype revRange = revSymmetricDifference string string

text \<open>A settled promise: fulfilled with a value, or rejected.\<close>

datatype 'a settled = Fulfilled 'a | Rejected string

record IMergeProps =
  defaultBranch :: "Branch option"
  currentBranch :: "Branch option"
  initialBranch :: "Branch option"   \<comment> \<open>\<^verbatim>\<open>undefined\<close> when the prop is absent\<close>

record IMergeState =
  selectedBranch :: "Branch option"
  mergeStatus :: "MergeResultStatus option"
  commitCount :: "nat option"        \<comment> \<open>\<^verbatim>\<open>undefined\<close> is \<open>None\<close>\<close>
  filterText :: string

text \<open>The calls the component makes to its collaborators, in the order it makes them.\<close>

datatype call =
    MergeTreeCall Branch Branch
  | GetAheadBehindCall revRange
  | MergeBranchCall string
  | ClosePopupCall

subsection \<open>The delay-floored runner\<close>

text \<open>
  Modelled from the spec: \<^verbatim>\<open>promiseWithMinimumTimeout\<close> of lib/promise is not under
  src/. The spec: it starts the operation immediately, races it against a timer of
  \<open>floorMillis\<close>, and resolves with the operation's result only after both the operation
  has completed and the floor has elapsed; if the operation fails, the failure propagates
  once the floor has also elapsed.

  The runner waits for two things, in either order: the operation settling and the timer
  firing.
\<close>

datatype 'a runnerEvent = OperationSettled "'a settled" | TimerFired

record 'a runner =
  operation :: "'a settled option"
  timerFired :: bool

definition runnerStart :: "'a runner" where
  "runnerStart = \<lparr>operation = None, timerFired = False\<rparr>"

fun runnerStep :: "'a runner \<Rightarrow> 'a runnerEvent \<Rightarrow> 'a runner" where
  "runnerStep r (OperationSettled x) =
     (case operation r of None \<Rightarrow> r\<lparr>operation := Some x\<rparr> | Some _ \<Rightarrow> r)"
| "runnerStep r TimerFired = r\<lparr>timerFired := True\<rparr>"

text \<open>What the runner's promise has settled with, if it has settled.\<close>

definition runnerResult :: "'a runner \<Rightarrow> 'a settled option" where
  "runnerResult r = (if timerFired r then operation r else None)"

text \<open>
  Time, in milliseconds from the call: the events reach the runner in the order of their
  times, and the runner's promise settles at the time of the first event after which it
  has a result.
\<close>

fun settleTime :: "'a runner \<Rightarrow> (nat \<times> 'a runnerEvent) list \<Rightarrow> (nat \<times> 'a settled) option" where
  "settleTime r [] = None"
| "settleTime r ((t, e) # es) =
     (let r' = runnerStep r e
      in case runnerResult r' of Some x \<Rightarrow> Some (t, x) | None \<Rightarrow> settleTime r' es)"

text \<open>
  An operation that settles with \<open>x\<close> after \<open>latency\<close> milliseconds, run with the floor
  \<open>floorMillis\<close>: the time at which the runner's promise settles, and what with.
\<close>

definition promiseWithMinimumTimeout ::
    "nat \<Rightarrow> 'a settled \<Rightarrow> nat \<Rightarrow> (nat \<times> 'a settled) option" where
  "promiseWithMinimumTimeout latency x floorMillis =
     settleTime runnerStart
       (if latency < floorMillis
        then [(latency, OperationSettled x), (floorMillis, TimerFired)]
        else [(floorMillis, TimerFired), (latency, OperationSettled x)])"

subsection \<open>The component\<close>

text \<open>Where a call of \<^verbatim>\<open>updateMergeStatus\<close> stands.\<close>

datatype pc =
    AwaitMergeTree "MergeResultStatus runner"  \<comment> \<open>at the \<^verbatim>\<open>await\<close> of line 271\<close>
  | AwaitAheadBehind                            \<comment> \<open>at the \<^verbatim>\<open>await\<close> of line 280\<close>
  | Returned
  | Thrown string                               \<comment> \<open>the returned promise rejected\<close>

record task =
  branch :: Branch   \<comment> \<open>the argument \<^verbatim>\<open>branch\<close> of the call\<close>
  at :: pc

record sys =
  state :: IMergeState
  tasks :: "task list"
  calls :: "call list"

text \<open>\<^verbatim>\<open>resolveSelectedBranch\<close>, lines 308 to 316.\<close>

definition resolveSelectedBranch :: "IMergeProps \<Rightarrow> Branch option" where
  "resolveSelectedBranch p =
     (case initialBranch p of
        Some b \<Rightarrow> Some b
      | None \<Rightarrow> (if strictEq (currentBranch p) (defaultBranch p) then None else defaultBranch p))"

text \<open>Lines 279 and 280: the call \<^verbatim>\<open>getAheadBehind(repository, revSymmetricDifference('', branch.name))\<close>.\<close>

definition callGetAheadBehind :: "Branch \<Rightarrow> call" where
  "callGetAheadBehind b = GetAheadBehindCall (revSymmetricDifference '''' (name b))"

text \<open>
  \<^verbatim>\<open>updateMergeStatus\<close>, lines 265 to 289, up to its first \<^verbatim>\<open>await\<close>: the one of line
  271 when conflict detection is enabled and there is a current branch, the one of line
  280 otherwise. The flag is what \<^verbatim>\<open>enableMergeConflictDetection()\<close> returns. The
  operation passed to \<^verbatim>\<open>promiseWithMinimumTimeout\<close> is started at once.
\<close>

definition updateMergeStatus :: "bool \<Rightarrow> IMergeProps \<Rightarrow> Branch \<Rightarrow> sys \<Rightarrow> sys" where
  "updateMergeStatus flag p b s =
     (let s1 = s\<lparr>state := (state s)\<lparr>mergeStatus := Some Loading\<rparr>\<rparr>
      in if flag \<and> currentBranch p \<noteq> None
         then s1\<lparr>tasks := tasks s1 @ [\<lparr>branch = b, at = AwaitMergeTree runnerStart\<rparr>],
                calls := calls s1 @ [MergeTreeCall (the (currentBranch p)) b]\<rparr>
         else s1\<lparr>tasks := tasks s1 @ [\<lparr>branch = b, at = AwaitAheadBehind\<rparr>],
                calls := calls s1 @ [callGetAheadBehind b]\<rparr>)"

text \<open>
  Lines 276 to 280: the floored promise fulfilled with \<open>ms\<close>; the call stores it and goes
  on to \<^verbatim>\<open>getAheadBehind\<close>.
\<close>

definition afterMergeTree :: "nat \<Rightarrow> Branch \<Rightarrow> MergeResultStatus \<Rightarrow> sys \<Rightarrow> sys" where
  "afterMergeTree tid b ms s =
     s\<lparr>state := (state s)\<lparr>mergeStatus := Some ms\<rparr>,
       tasks := (tasks s)[tid := \<lparr>branch = b, at = AwaitAheadBehind\<rparr>],
       calls := calls s @ [callGetAheadBehind b]\<rparr>"

text \<open>Lines 281 to 288: \<^verbatim>\<open>getAheadBehind\<close> fulfilled with \<open>aheadBehind\<close>.\<close>

definition behindCount :: "IAheadBehind option \<Rightarrow> nat" where
  "behindCount aheadBehind = (case aheadBehind of Some ab \<Rightarrow> behind ab | None \<Rightarrow> 0)"

definition afterAheadBehind :: "nat \<Rightarrow> Branch \<Rightarrow> IAheadBehind option \<Rightarrow> sys \<Rightarrow> sys" where
  "afterAheadBehind tid b aheadBehind s =
     (let n = behindCount aheadBehind;
          st = (if \<not> strictEq (selectedBranch (state s)) (Some b)
                then (state s)\<lparr>commitCount := None\<rparr>
                else (state s)\<lparr>commitCount := Some n\<rparr>)
      in s\<lparr>state := st, tasks := (tasks s)[tid := \<lparr>branch = b, at = Returned\<rparr>]\<rparr>)"

text \<open>An awaited promise rejected: the \<^verbatim>\<open>await\<close> throws, and nothing catches it.\<close>

definition throwAt :: "nat \<Rightarrow> Branch \<Rightarrow> string \<Rightarrow> sys \<Rightarrow> sys" where
  "throwAt tid b err s = s\<lparr>tasks := (tasks s)[tid := \<lparr>branch = b, at = Thrown err\<rparr>]\<rparr>"

text \<open>\<^verbatim>\<open>onSelectionChanged\<close>, lines 104 to 111, up to its \<^verbatim>\<open>await\<close>.\<close>

definition onSelectionChanged :: "bool \<Rightarrow> IMergeProps \<Rightarrow> Branch option \<Rightarrow> sys \<Rightarrow> sys" where
  "onSelectionChanged flag p sel s =
     (case sel of
        Some b \<Rightarrow> updateMergeStatus flag p b (s\<lparr>state := (state s)\<lparr>selectedBranch := Some b\<rparr>\<rparr>)
      | None \<Rightarrow>
          s\<lparr>state := (state s)\<lparr>selectedBranch := None, commitCount := Some 0, mergeStatus := None\<rparr>\<rparr>)"

text \<open>\<^verbatim>\<open>onFilterTextChanged\<close>, lines 100 to 102.\<close>

definition onFilterTextChanged :: "string \<Rightarrow> sys \<Rightarrow> sys" where
  "onFilterTextChanged ftext s = s\<lparr>state := (state s)\<lparr>filterText := ftext\<rparr>\<rparr>"

text \<open>\<^verbatim>\<open>merge\<close>, lines 291 to 299 (the dialog's \<^verbatim>\<open>onSubmit\<close>).\<close>

definition merge :: "sys \<Rightarrow> sys" where
  "merge s =
     (case selectedBranch (state s) of
        None \<Rightarrow> s
      | Some b \<Rightarrow> s\<lparr>calls := calls s @ [MergeBranchCall (name b), ClosePopupCall]\<rparr>)"

text \<open>The \<^verbatim>\<open>disabled\<close> of \<^verbatim>\<open>render\<close>, lines 223 to 227, with its short-circuit order.\<close>

definition disabled :: "IMergeProps \<Rightarrow> IMergeState \<Rightarrow> bool" where
  "disabled p st =
     (case selectedBranch st of
        None \<Rightarrow> True
      | Some sel \<Rightarrow>
          (case currentBranch p of
             None \<Rightarrow> True
           | Some cur \<Rightarrow> if name cur = name sel then True else commitCount st = Some 0))"

definition canSubmitMerge :: "IMergeProps \<Rightarrow> IMergeState \<Rightarrow> bool" where
  "canSubmitMerge p st = (\<not> disabled p st)"

text \<open>The constructor, lines 78 to 89, and \<^verbatim>\<open>componentDidMount\<close>, lines 91 to 98.\<close>

definition initialState :: "IMergeProps \<Rightarrow> IMergeState" where
  "initialState p =
     \<lparr>selectedBranch = resolveSelectedBranch p, mergeStatus = None,
      commitCount = None, filterText = ''''\<rparr>"

definition mount :: "bool \<Rightarrow> IMergeProps \<Rightarrow> sys" where
  "mount flag p =
     (let s = \<lparr>state = initialState p, tasks = [], calls = []\<rparr>
      in case selectedBranch (state s) of
           None \<Rightarrow> s
         | Some b \<Rightarrow> updateMergeStatus flag p b s)"

subsection \<open>Events\<close>

text \<open>
  The user's actions, and the settling of the promises the suspended calls wait for. A
  call is named by its position in \<open>tasks\<close>. An event for a call that does not exist, or
  that is not waiting for it, cannot happen (a promise settles once) and changes nothing.
\<close>

datatype event =
    SelectionChanged "Branch option"
  | FilterTextChanged string
  | Submit
  | MergeTreeRunner nat "MergeResultStatus runnerEvent"
  | AheadBehindSettled nat "IAheadBehind option settled"

definition onRunnerEvent :: "nat \<Rightarrow> MergeResultStatus runnerEvent \<Rightarrow> sys \<Rightarrow> sys" where
  "onRunnerEvent tid re s =
     (if tid < length (tasks s) then
        (let t = tasks s ! tid
         in case at t of
              AwaitMergeTree r \<Rightarrow>
                (let r' = runnerStep r re
                 in case runnerResult r' of
                      None \<Rightarrow> s\<lparr>tasks := (tasks s)[tid := t\<lparr>at := AwaitMergeTree r'\<rparr>]\<rparr>
                    | Some (Fulfilled ms) \<Rightarrow> afterMergeTree tid (branch t) ms s
                    | Some (Rejected err) \<Rightarrow> throwAt tid (branch t) err s)
            | _ \<Rightarrow> s)
      else s)"

definition onAheadBehindSettled :: "nat \<Rightarrow> IAheadBehind option settled \<Rightarrow> sys \<Rightarrow> sys" where
  "onAheadBehindSettled tid x s =
     (if tid < length (tasks s) then
        (let t = tasks s ! tid
         in case at t of
              AwaitAheadBehind \<Rightarrow>
                (case x of
                   Fulfilled aheadBehind \<Rightarrow> afterAheadBehind tid (branch t) aheadBehind s
                 | Rejected err \<Rightarrow> throwAt tid (branch t) err s)
            | _ \<Rightarrow> s)
      else s)"

fun step :: "bool \<Rightarrow> IMergeProps \<Rightarrow> sys \<Rightarrow> event \<Rightarrow> sys" where
  "step flag p s (SelectionChanged sel) = onSelectionChanged flag p sel s"
| "step flag p s (FilterTextChanged ftext) = onFilterTextChanged ftext s"
| "step flag p s Submit = merge s"
| "step flag p s (MergeTreeRunner tid re) = onRunnerEvent tid re s"
| "step flag p s (AheadBehindSettled tid x) = onAheadBehindSettled tid x s"

fun run :: "bool \<Rightarrow> IMergeProps \<Rightarrow> sys \<Rightarrow> event list \<Rightarrow> sys" where
  "run flag p s [] = s"
| "run flag p s (e # es) = run flag p (step flag p s e) es"

subsection \<open>Predicates and concrete inputs used below\<close>




text \<open>A call of \<^verbatim>\<open>updateMergeStatus\<close> that has not ended yet.\<close>

fun isPending :: "pc \<Rightarrow> bool" where
  "isPending (AwaitMergeTree _) = True"
| "isPending AwaitAheadBehind = True"
| "isPending _ = False"

text \<open>
  The commit count of the selected branch is being computed: a call of
  \<^verbatim>\<open>updateMergeStatus\<close> for the selected branch has not ended yet.
\<close>

definition recomputing :: "sys \<Rightarrow> bool" where
  "recomputing s =
     list_ex (\<lambda>t. isPending (at t) \<and> strictEq (selectedBranch (state s)) (Some (branch t)))
       (tasks s)"


definition mainBranch :: Branch where
  "mainBranch = \<lparr>ref = 0, name = ''main''\<rparr>"

definition featureA :: Branch where
  "featureA = \<lparr>ref = 1, name = ''feature-a''\<rparr>"

definition featureB :: Branch where
  "featureB = \<lparr>ref = 2, name = ''feature-b''\<rparr>"


text \<open>The dialog opened on the default branch: nothing is selected at first.\<close>

definition onMain :: IMergeProps where
  "onMain = \<lparr>defaultBranch = Some mainBranch, currentBranch = Some mainBranch,
             initialBranch = None\<rparr>"

section \<open>Properties\<close>

subsection \<open>The initial selection\<close>

text \<open>
  C8: \<^verbatim>\<open>resolveSelectedBranch\<close> returns the override \<^verbatim>\<open>initialBranch\<close> whenever one is
  supplied; with none, it returns \<^verbatim>\<open>null\<close> when \<^verbatim>\<open>currentBranch === defaultBranch\<close>
  and \<^verbatim>\<open>defaultBranch\<close> when they differ.
\<close>

theorem C8_resolveSelectedBranch:
  "(initialBranch p = Some ov \<longrightarrow> resolveSelectedBranch p = Some ov) \<and>
   (initialBranch p = None \<longrightarrow> strictEq (currentBranch p) (defaultBranch p) \<longrightarrow>
      resolveSelectedBranch p = None) \<and>
   (initialBranch p = None \<longrightarrow> \<not> strictEq (currentBranch p) (defaultBranch p) \<longrightarrow>
      resolveSelectedBranch p = defaultBranch p)"
  by (simp add: resolveSelectedBranch_def)

theorem C8_witness:
  "resolveSelectedBranch (onMain\<lparr>initialBranch := Some featureA\<rparr>) = Some featureA \<and>
   resolveSelectedBranch onMain = None \<and>
   resolveSelectedBranch (onMain\<lparr>currentBranch := Some featureA\<rparr>) = Some mainBranch"
proof -
  have a: "initialBranch (onMain\<lparr>initialBranch := Some featureA\<rparr>) = Some featureA"
    by simp
  have b: "initialBranch onMain = None" "strictEq (currentBranch onMain) (defaultBranch onMain)"
    by (simp_all add: onMain_def)
  have c: "initialBranch (onMain\<lparr>currentBranch := Some featureA\<rparr>) = None"
      "\<not> strictEq (currentBranch (onMain\<lparr>currentBranch := Some featureA\<rparr>))
           (defaultBranch (onMain\<lparr>currentBranch := Some featureA\<rparr>))"
      "defaultBranch (onMain\<lparr>currentBranch := Some featureA\<rparr>) = Some mainBranch"
    by (simp_all add: onMain_def featureA_def mainBranch_def)
  from C8_resolveSelectedBranch [of "onMain\<lparr>initialBranch := Some featureA\<rparr>" featureA] a
  have 1: "resolveSelectedBranch (onMain\<lparr>initialBranch := Some featureA\<rparr>) = Some featureA"
    by blast
  from C8_resolveSelectedBranch [of onMain] b
  have 2: "resolveSelectedBranch onMain = None" by blast
  from C8_resolveSelectedBranch [of "onMain\<lparr>currentBranch := Some featureA\<rparr>"] c
  have 3: "resolveSelectedBranch (onMain\<lparr>currentBranch := Some featureA\<rparr>) = Some mainBranch"
    by simp
  from 1 2 3 show ?thesis by blast
qed

subsection \<open>Selecting nothing\<close>

text \<open>
  C7: \<^verbatim>\<open>onSelectionChanged(null)\<close> sets \<open>selectedBranch\<close> to \<^verbatim>\<open>null\<close>, \<open>commitCount\<close> to
  0 and \<open>mergeStatus\<close> to \<^verbatim>\<open>null\<close> in the one synchronous step; it suspends no call of
  \<^verbatim>\<open>updateMergeStatus\<close> and calls no collaborator.
\<close>

theorem C7_select_null:
  "onSelectionChanged flag p None s =
     s\<lparr>state := \<lparr>selectedBranch = None, mergeStatus = None, commitCount = Some 0,
                  filterText = filterText (state s)\<rparr>\<rparr> \<and>
   step flag p s (SelectionChanged None) = onSelectionChanged flag p None s \<and>
   tasks (onSelectionChanged flag p None s) = tasks s \<and>
   calls (onSelectionChanged flag p None s) = calls s"
  by (simp add: onSelectionChanged_def)

subsection \<open>The merge button and the submit handler\<close>

text \<open>
  C6: the merge button is enabled exactly when none of these holds: \<open>selectedBranch\<close> is
  \<^verbatim>\<open>null\<close>, \<open>currentBranch\<close> is \<^verbatim>\<open>null\<close>, the two branches have the same name,
  \<open>commitCount\<close> is 0. In particular a \<open>commitCount\<close> of 0 disables it whatever
  \<open>mergeStatus\<close> is, and equal names disable it whatever \<open>mergeStatus\<close> and \<open>commitCount\<close>
  are.
\<close>

theorem C6_canSubmitMerge:
  "canSubmitMerge p st =
     (\<not> (selectedBranch st = None \<or> currentBranch p = None \<or>
         (\<exists>cur sel. currentBranch p = Some cur \<and> selectedBranch st = Some sel \<and>
            name cur = name sel) \<or>
         commitCount st = Some 0)) \<and>
   (commitCount st = Some 0 \<longrightarrow> \<not> canSubmitMerge p (st\<lparr>mergeStatus := ms\<rparr>)) \<and>
   (currentBranch p = Some cur' \<longrightarrow> selectedBranch st = Some sel' \<longrightarrow> name cur' = name sel' \<longrightarrow>
      \<not> canSubmitMerge p (st\<lparr>mergeStatus := ms, commitCount := cc\<rparr>))"
  by (auto simp: canSubmitMerge_def disabled_def split: option.splits)

theorem C6_witness:
  "canSubmitMerge onMain
     \<lparr>selectedBranch = Some featureA, mergeStatus = Some (Conflicts 3),
      commitCount = Some 5, filterText = ''''\<rparr> \<and>
   \<not> canSubmitMerge onMain
     \<lparr>selectedBranch = Some featureA, mergeStatus = Some Clean,
      commitCount = Some 0, filterText = ''''\<rparr> \<and>
   \<not> canSubmitMerge onMain
     \<lparr>selectedBranch = Some mainBranch, mergeStatus = Some Clean,
      commitCount = Some 5, filterText = ''''\<rparr>"
proof -
  have 1: "canSubmitMerge onMain
     \<lparr>selectedBranch = Some featureA, mergeStatus = Some (Conflicts 3),
      commitCount = Some 5, filterText = ''''\<rparr>"
    using C6_canSubmitMerge [of onMain "\<lparr>selectedBranch = Some featureA,
      mergeStatus = Some (Conflicts 3), commitCount = Some 5, filterText = ''''\<rparr>"]
    by (simp add: onMain_def mainBranch_def featureA_def)
  have 2: "\<not> canSubmitMerge onMain
     \<lparr>selectedBranch = Some featureA, mergeStatus = Some Clean,
      commitCount = Some 0, filterText = ''''\<rparr>"
    using C6_canSubmitMerge [of onMain "\<lparr>selectedBranch = Some featureA,
      mergeStatus = None, commitCount = Some 0, filterText = ''''\<rparr>" "Some Clean"]
    by simp
  have 3: "\<not> canSubmitMerge onMain
     \<lparr>selectedBranch = Some mainBranch, mergeStatus = Some Clean,
      commitCount = Some 5, filterText = ''''\<rparr>"
    using C6_canSubmitMerge [of onMain "\<lparr>selectedBranch = Some mainBranch,
      mergeStatus = None, commitCount = None, filterText = ''''\<rparr>" "Some Clean"
      mainBranch mainBranch "Some 5"]
    by (simp add: onMain_def)
  from 1 2 3 show ?thesis by blast
qed

text \<open>
  C10: submitting while \<open>selectedBranch\<close> is \<^verbatim>\<open>null\<close> does nothing: no call to
  \<^verbatim>\<open>mergeBranch\<close> or \<^verbatim>\<open>closePopup\<close>, no change of state. With a branch selected the
  handler calls both, whatever the other conditions of the button are: it checks none of
  them.
\<close>

theorem C10_submit:
  "(selectedBranch (state s) = None \<longrightarrow> step flag p s Submit = s) \<and>
   (selectedBranch (state s) = Some b \<longrightarrow>
      step flag p s Submit = s\<lparr>calls := calls s @ [MergeBranchCall (name b), ClosePopupCall]\<rparr>)"
  by (simp add: merge_def)

text \<open>
  The second input is a state whose button is disabled (nothing to merge): the handler
  still calls both collaborators.
\<close>

theorem C10_witness:
  "step True onMain (mount True onMain) Submit = mount True onMain \<and>
   disabled onMain
     (state (run False onMain (mount False onMain)
        [SelectionChanged (Some featureA), AheadBehindSettled 0 (Fulfilled None)])) \<and>
   calls (step False onMain
     (run False onMain (mount False onMain)
        [SelectionChanged (Some featureA), AheadBehindSettled 0 (Fulfilled None)]) Submit) =
     [GetAheadBehindCall (revSymmetricDifference '''' ''feature-a''),
      MergeBranchCall ''feature-a'', ClosePopupCall]"
proof -
  have n: "selectedBranch (state (mount True onMain)) = None"
    by code_simp
  have 1: "step True onMain (mount True onMain) Submit = mount True onMain"
    using C10_submit [where s = "mount True onMain" and flag = True and p = onMain] n by blast
  have a: "selectedBranch (state (run False onMain (mount False onMain)
        [SelectionChanged (Some featureA), AheadBehindSettled 0 (Fulfilled None)])) = Some featureA"
    by code_simp
  have d: "disabled onMain
     (state (run False onMain (mount False onMain)
        [SelectionChanged (Some featureA), AheadBehindSettled 0 (Fulfilled None)]))"
    by code_simp
  have c: "calls (run False onMain (mount False onMain)
        [SelectionChanged (Some featureA), AheadBehindSettled 0 (Fulfilled None)]) =
        [GetAheadBehindCall (revSymmetricDifference '''' ''feature-a'')]"
    by code_simp
  have 2: "calls (step False onMain
     (run False onMain (mount False onMain)
        [SelectionChanged (Some featureA), AheadBehindSettled 0 (Fulfilled None)]) Submit) =
     [GetAheadBehindCall (revSymmetricDifference '''' ''feature-a''),
      MergeBranchCall ''feature-a'', ClosePopupCall]"
    using C10_submit [where s = "run False onMain (mount False onMain)
        [SelectionChanged (Some featureA), AheadBehindSettled 0 (Fulfilled None)]"
        and b = featureA and flag = False and p = onMain] a c
    by (simp add: featureA_def)
  from 1 d 2 show ?thesis by blast
qed

subsection \<open>The delay floor\<close>

text \<open>
  C4: \<^verbatim>\<open>promiseWithMinimumTimeout\<close> settles with the operation's own outcome, a failure
  included, once the operation has settled and the floor has elapsed: at the time
  \<open>max latency floorMillis\<close>. An operation faster than the floor is held back to the
  floor; a slower one is not delayed.
\<close>

theorem C4_floor:
  "promiseWithMinimumTimeout t x f = Some (max t f, x) \<and>
   (t < f \<longrightarrow> (\<exists>T. promiseWithMinimumTimeout t x f = Some (T, x) \<and> f \<le> T)) \<and>
   (f \<le> t \<longrightarrow> promiseWithMinimumTimeout t x f = Some (t, x))"
  by (auto simp: promiseWithMinimumTimeout_def runnerStart_def runnerResult_def Let_def max_def)

theorem C4_witness:
  "promiseWithMinimumTimeout 100 (Fulfilled (Conflicts 3)) 500 = Some (500, Fulfilled (Conflicts 3)) \<and>
   promiseWithMinimumTimeout 100 (Rejected ''failed'' :: MergeResultStatus settled) 500 =
     Some (500, Rejected ''failed'') \<and>
   promiseWithMinimumTimeout 700 (Rejected ''failed'' :: MergeResultStatus settled) 500 =
     Some (700, Rejected ''failed'')"
proof -
  have lt: "(100::nat) < 500" and ge: "(500::nat) \<le> 700" by simp_all
  from C4_floor [of 100 "Fulfilled (Conflicts 3)" 500]
  have 1: "promiseWithMinimumTimeout 100 (Fulfilled (Conflicts 3)) 500 =
      Some (500, Fulfilled (Conflicts 3))"
    by simp
  from C4_floor [of 100 "Rejected ''failed'' :: MergeResultStatus settled" 500] lt
  have 2: "promiseWithMinimumTimeout 100 (Rejected ''failed'' :: MergeResultStatus settled) 500 =
     Some (500, Rejected ''failed'')"
    by simp
  from C4_floor [of 700 "Rejected ''failed'' :: MergeResultStatus settled" 500] ge
  have 3: "promiseWithMinimumTimeout 700 (Rejected ''failed'' :: MergeResultStatus settled) 500 =
     Some (700, Rejected ''failed'')"
    by simp
  from 1 2 3 show ?thesis by blast
qed

subsection \<open>The commit count\<close>

text \<open>
  What the continuation of lines 281 to 288 stores: the count it computed when the
  call's branch is the selected one, \<^verbatim>\<open>undefined\<close> otherwise.
\<close>

lemma afterAheadBehind_commitCount:
  "commitCount (state (afterAheadBehind tid b ab s)) =
     (if strictEq (selectedBranch (state s)) (Some b) then Some (behindCount ab) else None)"
  by (simp add: afterAheadBehind_def Let_def)

text \<open>
  C3: the commit count computed by a call of \<^verbatim>\<open>updateMergeStatus\<close> is stored in
  \<open>commitCount\<close> only when the branch of the call is, at that moment, the selected branch.
  First, what the continuation stores. Second, over all events: a step that leaves a
  number in \<open>commitCount\<close> that was not there before is either the selection of
  \<^verbatim>\<open>null\<close> (which stores 0) or the continuation of a call whose branch is the selected
  one, storing the count of that call.
\<close>

theorem C3_commitCount:
  "(\<forall>tid b ab. tid < length (tasks s) \<longrightarrow> tasks s ! tid = \<lparr>branch = b, at = AwaitAheadBehind\<rparr> \<longrightarrow>
      commitCount (state (step flag p s (AheadBehindSettled tid (Fulfilled ab)))) =
        (if strictEq (selectedBranch (state s)) (Some b) then Some (behindCount ab) else None)) \<and>
   (\<forall>e n. commitCount (state (step flag p s e)) = Some n \<longrightarrow>
      commitCount (state s) = Some n \<or>
      (e = SelectionChanged None \<and> n = 0) \<or>
      (\<exists>tid ab. e = AheadBehindSettled tid (Fulfilled ab) \<and> tid < length (tasks s) \<and>
         at (tasks s ! tid) = AwaitAheadBehind \<and>
         strictEq (selectedBranch (state s)) (Some (branch (tasks s ! tid))) \<and>
         n = behindCount ab))"
proof (intro conjI allI impI)
  fix tid b ab
  assume "tid < length (tasks s)" "tasks s ! tid = \<lparr>branch = b, at = AwaitAheadBehind\<rparr>"
  then show "commitCount (state (step flag p s (AheadBehindSettled tid (Fulfilled ab)))) =
        (if strictEq (selectedBranch (state s)) (Some b) then Some (behindCount ab) else None)"
    by (simp add: onAheadBehindSettled_def afterAheadBehind_commitCount)
next
  fix e n
  assume h: "commitCount (state (step flag p s e)) = Some n"
  show "commitCount (state s) = Some n \<or>
      (e = SelectionChanged None \<and> n = 0) \<or>
      (\<exists>tid ab. e = AheadBehindSettled tid (Fulfilled ab) \<and> tid < length (tasks s) \<and>
         at (tasks s ! tid) = AwaitAheadBehind \<and>
         strictEq (selectedBranch (state s)) (Some (branch (tasks s ! tid))) \<and>
         n = behindCount ab)"
  proof (cases e)
    case (SelectionChanged sel)
    with h show ?thesis
      by (cases sel) (auto simp: onSelectionChanged_def updateMergeStatus_def Let_def
          split: option.splits if_splits)
  next
    case (FilterTextChanged ftext)
    with h show ?thesis by (simp add: onFilterTextChanged_def)
  next
    case Submit
    with h show ?thesis by (simp add: merge_def split: option.splits)
  next
    case (MergeTreeRunner tid re)
    with h show ?thesis
      by (auto simp: onRunnerEvent_def afterMergeTree_def throwAt_def Let_def
          split: if_splits pc.splits option.splits settled.splits)
  next
    case (AheadBehindSettled tid x)
    with h show ?thesis
      by (auto simp: onAheadBehindSettled_def afterAheadBehind_def throwAt_def Let_def
          split: if_splits pc.splits settled.splits)
  qed
qed

text \<open>
  Two inputs. Both branches were selected in turn and both calls wait for
  \<^verbatim>\<open>getAheadBehind\<close>: the result for feature-b, the selected one, is stored; the result for
  feature-a is not.
\<close>

theorem C3_witness:
  "commitCount (state (step False onMain
      (run False onMain (mount False onMain)
         [SelectionChanged (Some featureA), SelectionChanged (Some featureB)])
      (AheadBehindSettled 1 (Fulfilled (Some \<lparr>ahead = 0, behind = 5\<rparr>))))) = Some 5 \<and>
   commitCount (state (step False onMain
      (run False onMain (mount False onMain)
         [SelectionChanged (Some featureA), SelectionChanged (Some featureB)])
      (AheadBehindSettled 0 (Fulfilled (Some \<lparr>ahead = 0, behind = 7\<rparr>))))) = None \<and>
   strictEq
     (selectedBranch (state (run False onMain (mount False onMain)
         [SelectionChanged (Some featureA), SelectionChanged (Some featureB)])))
     (Some (branch (tasks (run False onMain (mount False onMain)
         [SelectionChanged (Some featureA), SelectionChanged (Some featureB)]) ! 1)))"
proof -
  let ?s = "run False onMain (mount False onMain)
         [SelectionChanged (Some featureA), SelectionChanged (Some featureB)]"
  have len: "0 < length (tasks ?s)" "1 < length (tasks ?s)"
    by code_simp+
  have t0: "tasks ?s ! 0 = \<lparr>branch = featureA, at = AwaitAheadBehind\<rparr>"
    by code_simp
  have t1: "tasks ?s ! 1 = \<lparr>branch = featureB, at = AwaitAheadBehind\<rparr>"
    by code_simp
  have sel: "selectedBranch (state ?s) = Some featureB"
    by code_simp
  have cc: "commitCount (state ?s) = None"
    by code_simp
  note C3 = C3_commitCount [where s = ?s and flag = False and p = onMain]
  from C3 len(2) t1 sel
  have 1: "commitCount (state (step False onMain ?s
      (AheadBehindSettled 1 (Fulfilled (Some \<lparr>ahead = 0, behind = 5\<rparr>))))) = Some 5"
    by (simp add: behindCount_def)
  from C3 len(1) t0 sel
  have 2: "commitCount (state (step False onMain ?s
      (AheadBehindSettled 0 (Fulfilled (Some \<lparr>ahead = 0, behind = 7\<rparr>))))) = None"
    by (simp add: featureA_def featureB_def)
  from C3 have "commitCount (state (step False onMain ?s
      (AheadBehindSettled 1 (Fulfilled (Some \<lparr>ahead = 0, behind = 5\<rparr>))))) = Some 5 \<longrightarrow>
      commitCount (state ?s) = Some 5 \<or>
      (AheadBehindSettled 1 (Fulfilled (Some \<lparr>ahead = 0, behind = 5\<rparr>)) = SelectionChanged None \<and>
         (5::nat) = 0) \<or>
      (\<exists>tid ab. AheadBehindSettled 1 (Fulfilled (Some \<lparr>ahead = 0, behind = 5\<rparr>)) =
           AheadBehindSettled tid (Fulfilled ab) \<and> tid < length (tasks ?s) \<and>
         at (tasks ?s ! tid) = AwaitAheadBehind \<and>
         strictEq (selectedBranch (state ?s)) (Some (branch (tasks ?s ! tid))) \<and>
         5 = behindCount ab)"
    by blast
  with 1 cc
  have 3: "strictEq (selectedBranch (state ?s)) (Some (branch (tasks ?s ! 1)))"
    by auto
  from 1 2 3 show ?thesis by blast
qed




text \<open>
  The write of line 285 is not limited to those cases. On this run feature-b is selected
  and its own count, 0, has arrived, so nothing is being computed for it any more; then
  the count of feature-a, selected before it, arrives, and \<open>commitCount\<close> goes from 0 to
  \<^verbatim>\<open>undefined\<close>, which enables the merge button.
\<close>

lemma stale_count_erases_resolved_count:
  "state (run False onMain (mount False onMain)
     [SelectionChanged (Some featureA),
      SelectionChanged (Some featureB),
      AheadBehindSettled 1 (Fulfilled None)])
   = \<lparr>selectedBranch = Some featureB, mergeStatus = Some Loading,
      commitCount = Some 0, filterText = ''''\<rparr> \<and>
   \<not> recomputing (run False onMain (mount False onMain)
     [SelectionChanged (Some featureA),
      SelectionChanged (Some featureB),
      AheadBehindSettled 1 (Fulfilled None)]) \<and>
   state (run False onMain (mount False onMain)
     [SelectionChanged (Some featureA),
      SelectionChanged (Some featureB),
      AheadBehindSettled 1 (Fulfilled None),
      AheadBehindSettled 0 (Fulfilled (Some \<lparr>ahead = 0, behind = 5\<rparr>))])
   = \<lparr>selectedBranch = Some featureB, mergeStatus = Some Loading,
      commitCount = None, filterText = ''''\<rparr> \<and>
   disabled onMain \<lparr>selectedBranch = Some featureB, mergeStatus = Some Loading,
      commitCount = Some 0, filterText = ''''\<rparr> \<and>
   \<not> disabled onMain \<lparr>selectedBranch = Some featureB, mergeStatus = Some Loading,
      commitCount = None, filterText = ''''\<rparr>"
  by code_simp

subsection \<open>A failing tree-merge simulation\<close>

text \<open>
  The tree-merge simulation of the call for feature-a rejects and the floor elapses:
  \<open>mergeStatus\<close> is still Loading, not Unknown; \<^verbatim>\<open>getAheadBehind\<close> has not been called;
  \<open>commitCount\<close> is still \<^verbatim>\<open>undefined\<close>; the call has ended by throwing.
\<close>

theorem C2_counterexample:
  "run True onMain (mount True onMain)
     [SelectionChanged (Some featureA),
      MergeTreeRunner 0 (OperationSettled (Rejected ''merge-tree failed'')),
      MergeTreeRunner 0 TimerFired]
   = \<lparr>state = \<lparr>selectedBranch = Some featureA, mergeStatus = Some Loading,
               commitCount = None, filterText = ''''\<rparr>,
      tasks = [\<lparr>branch = featureA, at = Thrown ''merge-tree failed''\<rparr>],
      calls = [MergeTreeCall mainBranch featureA]\<rparr>"
  by code_simp

text \<open>
  C2, as the code has it: when the tree-merge simulation fails, the rejection of the
  floored promise is thrown by the \<^verbatim>\<open>await\<close> of line 271 and nothing catches it. The
  call of \<^verbatim>\<open>updateMergeStatus\<close> ends there: the state is left as it is (\<open>mergeStatus\<close> is
  not set to Unknown), \<^verbatim>\<open>getAheadBehind\<close> is not called, and nothing that happens to
  this call afterwards changes anything, so it never writes \<open>commitCount\<close>.
\<close>

theorem C2_rejection_propagates:
  assumes "tid < length (tasks s)"
    and "tasks s ! tid = \<lparr>branch = b, at = AwaitMergeTree r\<rparr>"
    and "runnerResult (runnerStep r re) = Some (Rejected err)"
  shows "step flag p s (MergeTreeRunner tid re) =
           s\<lparr>tasks := (tasks s)[tid := \<lparr>branch = b, at = Thrown err\<rparr>]\<rparr> \<and>
         step flag p (step flag p s (MergeTreeRunner tid re)) (MergeTreeRunner tid re') =
           step flag p s (MergeTreeRunner tid re) \<and>
         step flag p (step flag p s (MergeTreeRunner tid re)) (AheadBehindSettled tid x) =
           step flag p s (MergeTreeRunner tid re)"
proof -
  have thrown: "step flag p s (MergeTreeRunner tid re) =
           s\<lparr>tasks := (tasks s)[tid := \<lparr>branch = b, at = Thrown err\<rparr>]\<rparr>"
    using assms by (simp add: onRunnerEvent_def Let_def throwAt_def)
  show ?thesis
    unfolding thrown using assms(1)
    by (simp add: onRunnerEvent_def onAheadBehindSettled_def Let_def)
qed

theorem C2_witness:
  "step True onMain
     (run True onMain (mount True onMain)
        [SelectionChanged (Some featureA), MergeTreeRunner 0 TimerFired])
     (MergeTreeRunner 0 (OperationSettled (Rejected ''merge-tree failed'')))
   = \<lparr>state = \<lparr>selectedBranch = Some featureA, mergeStatus = Some Loading,
               commitCount = None, filterText = ''''\<rparr>,
      tasks = [\<lparr>branch = featureA, at = Thrown ''merge-tree failed''\<rparr>],
      calls = [MergeTreeCall mainBranch featureA]\<rparr> \<and>
   step True onMain
     (step True onMain
        (run True onMain (mount True onMain)
           [SelectionChanged (Some featureA), MergeTreeRunner 0 TimerFired])
        (MergeTreeRunner 0 (OperationSettled (Rejected ''merge-tree failed''))))
     (AheadBehindSettled 0 (Fulfilled (Some \<lparr>ahead = 0, behind = 5\<rparr>)))
   = \<lparr>state = \<lparr>selectedBranch = Some featureA, mergeStatus = Some Loading,
               commitCount = None, filterText = ''''\<rparr>,
      tasks = [\<lparr>branch = featureA, at = Thrown ''merge-tree failed''\<rparr>],
      calls = [MergeTreeCall mainBranch featureA]\<rparr>"
proof -
  let ?s = "run True onMain (mount True onMain)
        [SelectionChanged (Some featureA), MergeTreeRunner 0 TimerFired]"
  let ?r = "\<lparr>operation = None, timerFired = True\<rparr> :: MergeResultStatus runner"
  have s: "?s = \<lparr>state = \<lparr>selectedBranch = Some featureA, mergeStatus = Some Loading,
               commitCount = None, filterText = ''''\<rparr>,
      tasks = [\<lparr>branch = featureA, at = AwaitMergeTree ?r\<rparr>],
      calls = [MergeTreeCall mainBranch featureA]\<rparr>"
    by code_simp
  have h1: "0 < length (tasks ?s)"
    unfolding s by simp
  have h2: "tasks ?s ! 0 = \<lparr>branch = featureA, at = AwaitMergeTree ?r\<rparr>"
    unfolding s by simp
  have h3: "runnerResult (runnerStep ?r (OperationSettled (Rejected ''merge-tree failed'')))
      = Some (Rejected ''merge-tree failed'')"
    by (simp add: runnerResult_def)
  let ?e = "MergeTreeRunner 0 (OperationSettled (Rejected ''merge-tree failed''))"
  let ?t = "\<lparr>state = \<lparr>selectedBranch = Some featureA, mergeStatus = Some Loading,
               commitCount = None, filterText = ''''\<rparr>,
      tasks = [\<lparr>branch = featureA, at = Thrown ''merge-tree failed''\<rparr>],
      calls = [MergeTreeCall mainBranch featureA]\<rparr>"
  note c = C2_rejection_propagates [OF h1 h2 h3, where flag = True and p = onMain
      and re' = TimerFired and x = "Fulfilled (Some \<lparr>ahead = 0, behind = 5\<rparr>)"]
  have 1: "step True onMain ?s ?e = ?t"
    using c [THEN conjunct1] unfolding s by simp
  have 2: "step True onMain ?t (AheadBehindSettled 0 (Fulfilled (Some \<lparr>ahead = 0, behind = 5\<rparr>)))
      = ?t"
    using c [THEN conjunct2, THEN conjunct2] unfolding 1 .
  show ?thesis
    unfolding 1 by (rule conjI [OF refl 2])
qed

subsection \<open>Conflict detection disabled\<close>













subsection \<open>A stale result of the tree-merge simulation\<close>

text \<open>
  Line 276 stores the result of the tree-merge simulation whatever the selection is by
  then; the selection is read only later, at line 283.
\<close>

lemma afterMergeTree_unguarded:
  "mergeStatus (state (afterMergeTree tid b ms s)) = Some ms \<and>
   selectedBranch (state (afterMergeTree tid b ms s)) = selectedBranch (state s)"
  by (simp add: afterMergeTree_def)

text \<open>
  C1: no result of an evaluation launched for a branch A is written into the state once
  another branch B is selected. The code checks this for the commit count (line 283) and
  not for the result of the tree-merge simulation (line 276). On this run feature-a is
  selected, then feature-b; the evaluation of feature-b completes (Clean, 5 commits); then
  the tree-merge simulation of feature-a resolves with 3 conflicted files. Before that last
  event the state shows the result of feature-b; after it, with feature-b still selected,
  \<open>mergeStatus\<close> is the result computed for feature-a.
\<close>

theorem C1_stale_mergeStatus_written:
  "state (run True onMain (mount True onMain)
     [SelectionChanged (Some featureA),
      SelectionChanged (Some featureB),
      MergeTreeRunner 1 (OperationSettled (Fulfilled Clean)),
      MergeTreeRunner 1 TimerFired,
      AheadBehindSettled 1 (Fulfilled (Some \<lparr>ahead = 0, behind = 5\<rparr>)),
      MergeTreeRunner 0 TimerFired])
   = \<lparr>selectedBranch = Some featureB, mergeStatus = Some Clean,
      commitCount = Some 5, filterText = ''''\<rparr> \<and>
   state (run True onMain (mount True onMain)
     [SelectionChanged (Some featureA),
      SelectionChanged (Some featureB),
      MergeTreeRunner 1 (OperationSettled (Fulfilled Clean)),
      MergeTreeRunner 1 TimerFired,
      AheadBehindSettled 1 (Fulfilled (Some \<lparr>ahead = 0, behind = 5\<rparr>)),
      MergeTreeRunner 0 TimerFired,
      MergeTreeRunner 0 (OperationSettled (Fulfilled (Conflicts 3)))])
   = \<lparr>selectedBranch = Some featureB, mergeStatus = Some (Conflicts 3),
      commitCount = Some 5, filterText = ''''\<rparr>"
  by code_simp

end
